theory Spec2Isabelle
  imports Complex_Main
begin

section \<open>Python values, exceptions and outcomes\<close>

text \<open>
  The metadata record is a Python dict pickled to a sidecar file. The values the coordinator
  stores in it are the boolean \<^verbatim>\<open>True\<close> (key \<^verbatim>\<open>dbExists\<close>) and a message string
  (key \<^verbatim>\<open>dbError\<close>).
\<close>

datatype pyval = PyBool bool | PyStr string

text \<open>Python truthiness, as used by \<^verbatim>\<open>if self.metadata.get(key, False)\<close>.\<close>

fun truthy :: "pyval \<Rightarrow> bool" where
  "truthy (PyBool b) = b"
| "truthy (PyStr s) = (s \<noteq> [])"

text \<open>
  Exceptions: \<^verbatim>\<open>Exception(arg)\<close> raised by the coordinator itself, the built-in
  \<^verbatim>\<open>KeyError\<close>, \<^verbatim>\<open>ValueError\<close> and \<^verbatim>\<open>FileNotFoundError\<close>, the lock library's
  \<^verbatim>\<open>Timeout\<close>, and the failures of reading a file that is not a database or not a pickle.
\<close>

datatype exn =
    Exception pyval
  | KeyError string
  | ValueError string
  | FileNotFoundError string
  | Timeout string
  | DatabaseError
  | UnpicklingError

text \<open>
  A call returns a value, raises, or never returns (it waits for a lock that another process
  holds and does not release).
\<close>

datatype 'a result = Return 'a | Raise exn | Hang

section \<open>Tables, files and the shared world\<close>

text \<open>
  A cell is an integer or a float; floats are modelled by real numbers (rounding is not modelled).
  A data frame is its list of named columns, an epoch the items of a dict from table names to
  table data, in iteration order.
\<close>

datatype cell = IntV int | FloatV real

type_synonym dataframe = "(string \<times> cell list) list"

type_synonym epoch = "(string \<times> dataframe) list"

type_synonym metadata = "string \<rightharpoonup> pyval"

type_synonym database = "string \<rightharpoonup> dataframe"

text \<open>
  A file holds a pickled metadata dict, an SQLite database (its tables by name; the empty file
  is the empty database), or anything else.
\<close>

datatype fileData = Pickle metadata | Sqlite database | Other

text \<open>
  The state shared by all processes: the data files by path, and the lock files that some other
  process currently holds. The lock sidecar is tracked only through \<open>heldElsewhere\<close>.
\<close>

record world =
  files :: "string \<rightharpoonup> fileData"
  heldElsewhere :: "string set"

definition path_exists :: "world \<Rightarrow> string \<Rightarrow> bool" where
  "path_exists w p = (files w p \<noteq> None)"

definition os_remove :: "string \<Rightarrow> world \<Rightarrow> world" where
  "os_remove p w = w\<lparr>files := (files w)(p := None)\<rparr>"

text \<open>Sequencing: the rest runs only after a normal return.\<close>

fun and_then :: "'a result \<times> world \<Rightarrow> ('a \<Rightarrow> world \<Rightarrow> 'b result \<times> world) \<Rightarrow> 'b result \<times> world" where
  "and_then (Return x, w) f = f x w"
| "and_then (Raise e, w) f = (Raise e, w)"
| "and_then (Hang, w) f = (Hang, w)"

section \<open>The lock library\<close>

text \<open>
  \<^verbatim>\<open>filelock.FileLock(path)\<close> is created without a timeout, so the lock's own timeout is
  the library default \<open>-1\<close>. \<^verbatim>\<open>acquire(timeout=None)\<close> uses the lock's own timeout when no
  argument is given; a negative timeout waits for ever, a non-negative one raises
  \<^verbatim>\<open>Timeout\<close> once it has elapsed. In this sequential model a lock held elsewhere stays
  held.
\<close>

definition lock_acquire :: "string \<Rightarrow> int option \<Rightarrow> world \<Rightarrow> unit result" where
  "lock_acquire lockPath timeoutArg w =
     (let tmo = (case timeoutArg of None \<Rightarrow> - 1 | Some t \<Rightarrow> t) in
      if lockPath \<notin> heldElsewhere w then Return ()
      else if 0 \<le> tmo then Raise (Timeout lockPath)
      else Hang)"

text \<open>
  \<^verbatim>\<open>with self.lock.acquire(): body\<close>. The lock is re-entrant and released on every exit of
  the block, so the block leaves \<open>heldElsewhere\<close> as it found it.
\<close>

definition with_lock :: "string \<Rightarrow> (world \<Rightarrow> 'a result \<times> world) \<Rightarrow> world \<Rightarrow> 'a result \<times> world" where
  "with_lock lockPath body w =
     (case lock_acquire lockPath None w of
        Return _ \<Rightarrow> body w
      | Raise e \<Rightarrow> (Raise e, w)
      | Hang \<Rightarrow> (Hang, w))"

section \<open>MetricsDataIO\<close>

text \<open>
  The attributes of a \<^verbatim>\<open>MetricsDataIO\<close> object. \<^verbatim>\<open>self.lock\<close> and
  \<^verbatim>\<open>self.metadataFile\<close> are fixed by \<^verbatim>\<open>dbFile\<close> at construction and are derived from it
  here; \<open>metadata\<close> exists on writers only and is read on writers only.
\<close>

record coordinator =
  dbFile :: string
  forceOverwrite :: bool
  timeout :: int
  readOnly :: bool
  metadata :: metadata

definition lockFile :: "coordinator \<Rightarrow> string" where
  "lockFile self = dbFile self @ ''.lock''"

definition metadataFile :: "coordinator \<Rightarrow> string" where
  "metadataFile self = dbFile self @ ''.metadata''"

text \<open>The decorator \<^verbatim>\<open>checkReadOnly\<close>.\<close>

definition checkReadOnly ::
  "(coordinator \<Rightarrow> world \<Rightarrow> 'a result \<times> world) \<Rightarrow> coordinator \<Rightarrow> world \<Rightarrow> 'a result \<times> world" where
  "checkReadOnly func self w =
     (if readOnly self then (Raise (Exception (PyStr ''MetricsDataIO initialized in read-only mode!'')), w)
      else func self w)"

subsection \<open>Metadata\<close>

definition dumpMetadata_body :: "coordinator \<Rightarrow> world \<Rightarrow> unit result \<times> world" where
  "dumpMetadata_body self w =
     with_lock (lockFile self)
       (\<lambda>w1. (Return (), w1\<lparr>files := (files w1)(metadataFile self \<mapsto> Pickle (metadata self))\<rparr>)) w"

definition dumpMetadata :: "coordinator \<Rightarrow> world \<Rightarrow> unit result \<times> world" where
  "dumpMetadata = checkReadOnly dumpMetadata_body"

text \<open>\<^verbatim>\<open>loadMetadata\<close> assigns \<^verbatim>\<open>self.metadata\<close>; the updated object is its result.\<close>

definition pickle_load :: "string \<Rightarrow> world \<Rightarrow> metadata result" where
  "pickle_load p w =
     (case files w p of
        None \<Rightarrow> Raise (FileNotFoundError p)
      | Some (Pickle m) \<Rightarrow> Return m
      | Some _ \<Rightarrow> Raise UnpicklingError)"

definition loadMetadata_body :: "coordinator \<Rightarrow> world \<Rightarrow> coordinator result \<times> world" where
  "loadMetadata_body self w =
     and_then
       (if \<not> path_exists w (metadataFile self) then dumpMetadata self w else (Return (), w))
       (\<lambda>_ w1. case pickle_load (metadataFile self) w1 of
                  Return m \<Rightarrow> (Return (self\<lparr>metadata := m\<rparr>), w1)
                | Raise e \<Rightarrow> (Raise e, w1)
                | Hang \<Rightarrow> (Hang, w1))"

definition loadMetadata :: "coordinator \<Rightarrow> world \<Rightarrow> coordinator result \<times> world" where
  "loadMetadata = checkReadOnly loadMetadata_body"

subsection \<open>Validation of the output path\<close>

text \<open>\<^verbatim>\<open>d.get(key, False)\<close>.\<close>

definition py_get :: "metadata \<Rightarrow> string \<Rightarrow> pyval" where
  "py_get d k = (case d k of None \<Rightarrow> PyBool False | Some v \<Rightarrow> v)"

definition conflict_message :: "string \<Rightarrow> string" where
  "conflict_message f =
     ''Output file '' @ f @ '' already exists! Please specify a different output file or set -f flag.''"

definition checkOutfileExists :: "coordinator \<Rightarrow> world \<Rightarrow> coordinator result \<times> world" where
  "checkOutfileExists self w =
     (if readOnly self then (Return self, w)
      else with_lock (lockFile self)
        (\<lambda>w0. and_then (loadMetadata self w0)
          (\<lambda>self1 w1.
             if truthy (py_get (metadata self1) ''dbError'')
             then (Raise (Exception (py_get (metadata self1) ''dbError'')), w1)
             else if \<not> truthy (py_get (metadata self1) ''dbExists'') then
               (if path_exists w1 (dbFile self1) then
                  (if \<not> forceOverwrite self1 then
                     (let exception = conflict_message (dbFile self1);
                          self2 = self1\<lparr>metadata := (metadata self1)(''dbError'' \<mapsto> PyStr exception)\<rparr>
                      in and_then (dumpMetadata self2 w1)
                           (\<lambda>_ w2. (Raise (Exception (PyStr exception)), w2)))
                   else
                     (let w2 = os_remove (dbFile self1) w1;
                          self2 = self1\<lparr>metadata := (metadata self1)(''dbExists'' \<mapsto> PyBool True)\<rparr>
                      in and_then (dumpMetadata self2 w2) (\<lambda>_ w3. (Return self2, w3))))
                else (Return self1, w1))
             else (Return self1, w1))) w)"

text \<open>
  The constructor \<^verbatim>\<open>MetricsDataIO(dbFile, forceOverwrite, readOnly, timeout)\<close>; the Python
  defaults are \<^verbatim>\<open>forceOverwrite=False\<close>, \<^verbatim>\<open>readOnly=True\<close>, \<^verbatim>\<open>timeout=900\<close>.
\<close>

definition init :: "string \<Rightarrow> bool \<Rightarrow> bool \<Rightarrow> int \<Rightarrow> world \<Rightarrow> coordinator result \<times> world" where
  "init f fo ro tmo w =
     checkOutfileExists
       \<lparr>dbFile = f, forceOverwrite = fo, timeout = tmo, readOnly = ro, metadata = Map.empty\<rparr> w"

subsection \<open>Writing and reading tables\<close>

text \<open>
  \<^verbatim>\<open>sqlite3.connect(path, timeout)\<close> creates an empty database file when there is none. The
  timeout bounds the wait for the database's own lock, which this model does not have.
\<close>

definition sqlite_connect :: "string \<Rightarrow> int \<Rightarrow> world \<Rightarrow> world" where
  "sqlite_connect p tmo w =
     (if path_exists w p then w else w\<lparr>files := (files w)(p \<mapsto> Sqlite Map.empty)\<rparr>)"

text \<open>\<^verbatim>\<open>df.to_sql(name, conn, if_exists='replace', index=False)\<close> on the file at \<open>p\<close>.\<close>

definition to_sql :: "string \<Rightarrow> dataframe \<Rightarrow> string \<Rightarrow> world \<Rightarrow> unit result \<times> world" where
  "to_sql name df p w =
     (case files w p of
        Some (Sqlite db) \<Rightarrow> (Return (), w\<lparr>files := (files w)(p \<mapsto> Sqlite (db(name \<mapsto> df)))\<rparr>)
      | _ \<Rightarrow> (Raise DatabaseError, w))"

text \<open>\<^verbatim>\<open>series.astype(float) / 100.0\<close>, cell by cell.\<close>

fun to_float :: "cell \<Rightarrow> real" where
  "to_float (IntV i) = real_of_int i"
| "to_float (FloatV r) = r"

definition rescale :: "cell \<Rightarrow> cell" where
  "rescale v = FloatV (to_float v / 100)"

definition normalize :: "dataframe \<Rightarrow> dataframe" where
  "normalize df =
     (if ''DEV_GPU_UTIL'' \<in> set (map fst df)
      then map (\<lambda>(col, vals). if col = ''DEV_GPU_UTIL'' then (col, map rescale vals) else (col, vals)) df
      else df)"

text \<open>The decimal rendering of a loop index by the f-string \<^verbatim>\<open>f"_epoch:{i}"\<close>.\<close>

definition digit_char :: "nat \<Rightarrow> char" where
  "digit_char d = ''0123456789'' ! d"

function py_str_nat :: "nat \<Rightarrow> string" where
  "py_str_nat n = (if n < 10 then [digit_char n] else py_str_nat (n div 10) @ [digit_char (n mod 10)])"
  by pat_completeness auto
termination
  by (relation "measure id") auto

definition epoch_suffix :: "nat \<Rightarrow> string" where
  "epoch_suffix i = ''_epoch:'' @ py_str_nat i"

fun dumpTables :: "coordinator \<Rightarrow> string \<Rightarrow> epoch \<Rightarrow> world \<Rightarrow> unit result \<times> world" where
  "dumpTables self epoch [] w = (Return (), w)"
| "dumpTables self epoch ((tableName, tableData) # rest) w =
     (case to_sql (tableName @ epoch) (normalize tableData) (dbFile self) w of
        (Return _, w1) \<Rightarrow> dumpTables self epoch rest w1
      | (Raise e, w1) \<Rightarrow> (Raise e, w1)
      | (Hang, w1) \<Rightarrow> (Hang, w1))"

definition dumpEpoch :: "coordinator \<Rightarrow> epoch \<Rightarrow> string \<Rightarrow> world \<Rightarrow> unit result \<times> world" where
  "dumpEpoch self data epoch w =
     dumpTables self epoch data (sqlite_connect (dbFile self) (timeout self) w)"

fun dumpEpochs :: "coordinator \<Rightarrow> (nat \<times> epoch) list \<Rightarrow> world \<Rightarrow> unit result \<times> world" where
  "dumpEpochs self [] w = (Return (), w)"
| "dumpEpochs self ((i, epoch) # rest) w =
     (case dumpEpoch self epoch (epoch_suffix i) w of
        (Return _, w1) \<Rightarrow> dumpEpochs self rest w1
      | (Raise e, w1) \<Rightarrow> (Raise e, w1)
      | (Hang, w1) \<Rightarrow> (Hang, w1))"

definition dump_body :: "epoch list \<Rightarrow> coordinator \<Rightarrow> world \<Rightarrow> unit result \<times> world" where
  "dump_body data self w =
     (if length data = 0 then (Return (), w)
      else if length data = 1 then dumpEpoch self (data ! 0) '''' w
      else dumpEpochs self (enumerate 0 data) w)"

definition dump :: "coordinator \<Rightarrow> epoch list \<Rightarrow> world \<Rightarrow> unit result \<times> world" where
  "dump self data = checkReadOnly (dump_body data) self"

definition load :: "coordinator \<Rightarrow> world \<Rightarrow> database result \<times> world" where
  "load self w =
     (if \<not> path_exists w (dbFile self)
      then (Raise (Exception (PyStr (''Database file '' @ dbFile self @ '' does not exist!''))), w)
      else (case files w (dbFile self) of
              Some (Sqlite db) \<Rightarrow> (Return db, w)
            | _ \<Rightarrow> (Raise DatabaseError, w)))"

section \<open>The targets of a profiling process\<close>

text \<open>
  \<^verbatim>\<open>profile\<close> reads the job identifier and the GPU ids of the process from the
  environment (the \<^verbatim>\<open>try\<close>/\<^verbatim>\<open>except KeyError\<close> block, the same in both driver
  files). \<^verbatim>\<open>os.environ[k]\<close> raises \<^verbatim>\<open>KeyError\<close> for an absent variable.
\<close>

type_synonym environ = "string \<rightharpoonup> string"

definition environ_get :: "environ \<Rightarrow> string \<Rightarrow> exn + string" where
  "environ_get env k = (case env k of None \<Rightarrow> Inl (KeyError k) | Some v \<Rightarrow> Inr v)"

text \<open>ASCII white space, as \<^verbatim>\<open>str.strip()\<close> and \<^verbatim>\<open>int()\<close> remove it.\<close>

definition is_space :: "char \<Rightarrow> bool" where
  "is_space c = (let k = (of_char c :: nat) in (9 \<le> k \<and> k \<le> 13) \<or> (28 \<le> k \<and> k \<le> 32))"

definition py_strip :: "string \<Rightarrow> string" where
  "py_strip s = rev (dropWhile is_space (rev (dropWhile is_space s)))"

text \<open>\<^verbatim>\<open>s.split(',')\<close>.\<close>

fun py_split :: "char \<Rightarrow> string \<Rightarrow> string list" where
  "py_split sep [] = [ [] ]"
| "py_split sep (c # cs) =
     (if c = sep then [] # py_split sep cs
      else (case py_split sep cs of [] \<Rightarrow> [ [c] ] | p # ps \<Rightarrow> (c # p) # ps))"

text \<open>
  \<^verbatim>\<open>int(s)\<close> on a string of ASCII characters: surrounding white space, an optional sign,
  decimal digits, single underscores between digits.
\<close>

definition is_digit :: "char \<Rightarrow> bool" where
  "is_digit c = (c \<in> set ''0123456789'')"

definition digit_val :: "char \<Rightarrow> nat" where
  "digit_val c = of_char c - 48"

fun int_body_ok :: "string \<Rightarrow> bool" where
  "int_body_ok [] = False"
| "int_body_ok [c] = is_digit c"
| "int_body_ok (c # d # r) =
     (is_digit c \<and> (if d = CHR ''_'' then int_body_ok r else int_body_ok (d # r)))"

definition digits_val :: "string \<Rightarrow> nat" where
  "digits_val ds = foldl (\<lambda>a c. 10 * a + digit_val c) 0 (filter is_digit ds)"

definition py_int :: "string \<Rightarrow> exn + int" where
  "py_int s =
     (let t = py_strip s;
          neg = (t \<noteq> [] \<and> hd t = CHR ''-'');
          body = (if t \<noteq> [] \<and> (hd t = CHR ''-'' \<or> hd t = CHR ''+'') then tl t else t)
      in if int_body_ok body
         then Inr (if neg then - int (digits_val body) else int (digits_val body))
         else Inl (ValueError s))"

text \<open>The list comprehension \<^verbatim>\<open>[int(gpu) for gpu in ...]\<close>: the first failure is raised.\<close>

fun int_each :: "string list \<Rightarrow> exn + int list" where
  "int_each [] = Inr []"
| "int_each (g # gs) =
     (case py_int g of
        Inl e \<Rightarrow> Inl e
      | Inr i \<Rightarrow> (case int_each gs of Inl e \<Rightarrow> Inl e | Inr is \<Rightarrow> Inr (i # is)))"

text \<open>The body of the \<^verbatim>\<open>try\<close> block.\<close>

definition targets_from_step_gpus :: "environ \<Rightarrow> exn + (string \<times> int list)" where
  "targets_from_step_gpus env =
     (case environ_get env ''SLURM_JOB_ID'' of
        Inl e \<Rightarrow> Inl e
      | Inr jobId \<Rightarrow>
          (case environ_get env ''SLURM_STEP_GPUS'' of
             Inl e \<Rightarrow> Inl e
           | Inr gpus \<Rightarrow>
               (case int_each (py_split CHR '','' (py_strip gpus)) of
                  Inl e \<Rightarrow> Inl e
                | Inr gpuIds \<Rightarrow> Inr (jobId, gpuIds))))"

text \<open>The handler of \<^verbatim>\<open>KeyError\<close>.\<close>

definition targets_from_procid :: "environ \<Rightarrow> exn + (string \<times> int list)" where
  "targets_from_procid env =
     (case environ_get env ''SLURM_JOB_ID'' of
        Inl e \<Rightarrow> Inl e
      | Inr jobId \<Rightarrow>
          (case environ_get env ''SLURM_PROCID'' of
             Inl e \<Rightarrow> Inl e
           | Inr p \<Rightarrow>
               (case py_int p of
                  Inl e \<Rightarrow> Inl e
                | Inr procId \<Rightarrow> Inr (jobId, [procId mod 4]))))"

text \<open>The job identifier and the GPU ids that \<^verbatim>\<open>profile\<close> passes on.\<close>

definition profile_targets :: "environ \<Rightarrow> exn + (string \<times> int list)" where
  "profile_targets env =
     (case targets_from_step_gpus env of
        Inl (KeyError k) \<Rightarrow> targets_from_procid env
      | r \<Rightarrow> r)"

section \<open>Auxiliary notions for the proofs\<close>

text \<open>
  The database that a connection to path \<open>p\<close> works on: the empty one when there is no file
  yet, none when the file is not a database.
\<close>

definition db_of :: "world \<Rightarrow> string \<Rightarrow> database option" where
  "db_of w p =
     (case files w p of
        None \<Rightarrow> Some Map.empty
      | Some (Sqlite db) \<Rightarrow> Some db
      | Some _ \<Rightarrow> None)"

text \<open>The tables that one call of \<^verbatim>\<open>dumpEpoch\<close> sends to the database, in order.\<close>

definition epoch_writes :: "string \<Rightarrow> epoch \<Rightarrow> (string \<times> dataframe) list" where
  "epoch_writes sfx e = map (\<lambda>(n, t). (n @ sfx, normalize t)) e"

definition epochs_writes :: "(nat \<times> epoch) list \<Rightarrow> (string \<times> dataframe) list" where
  "epochs_writes ies = concat (map (\<lambda>(i, e). epoch_writes (epoch_suffix i) e) ies)"

definition dump_writes :: "epoch list \<Rightarrow> (string \<times> dataframe) list" where
  "dump_writes data =
     (if length data = 1 then epoch_writes [] (data ! 0) else epochs_writes (enumerate 0 data))"

text \<open>The file system after the tables \<open>ws\<close> have been written to the database at \<open>p\<close>.\<close>

definition written :: "string \<Rightarrow> database \<Rightarrow> (string \<times> dataframe) list \<Rightarrow> world \<Rightarrow> world" where
  "written p db ws w = w\<lparr>files := (files w)(p \<mapsto> Sqlite (db ++ map_of (rev ws)))\<rparr>"

text \<open>
  The frames that a table can hold (\<^verbatim>\<open>pd.DataFrame\<close> accepts them and every row has a value
  in every column): at least one column, distinct column names, all columns of one length.
\<close>

definition well_formed :: "dataframe \<Rightarrow> bool" where
  "well_formed df =
     (df \<noteq> [] \<and> distinct (map fst df)
      \<and> (\<forall>l\<in>set (map (\<lambda>c. length (snd c)) df). l = hd (map (\<lambda>c. length (snd c)) df)))"

section \<open>The effect of the dump functions\<close>

text \<open>
  On a path that holds a database, or no file yet, every write succeeds and the calls amount to
  overriding the database with the written tables; on any other file the first write fails and
  nothing changes.
\<close>

lemma to_sql_db:
  "files w p = Some (Sqlite db) \<Longrightarrow>
     to_sql name df p w = (Return (), w\<lparr>files := (files w)(p \<mapsto> Sqlite (db(name \<mapsto> df)))\<rparr>)"
  by (simp add: to_sql_def)

lemma to_sql_not_db:
  "db_of w p = None \<Longrightarrow> to_sql name df p w = (Raise DatabaseError, w)"
  by (auto simp: to_sql_def db_of_def split: option.splits fileData.splits)

lemma written_Nil: "files w p = Some (Sqlite db) \<Longrightarrow> written p db [] w = w"
  by (cases w) (auto simp: written_def)

lemma written_step:
  "written p (db(k \<mapsto> v)) ws (w\<lparr>files := (files w)(p \<mapsto> Sqlite (db(k \<mapsto> v)))\<rparr>) = written p db ((k, v) # ws) w"
proof -
  have "db(k \<mapsto> v) ++ map_of (rev ws) = db ++ map_of (rev ws @ [(k, v)])"
    by (simp add: map_add_upd_left fun_eq_iff map_add_def split: option.splits)
  then show ?thesis by (simp add: written_def)
qed

lemma dumpTables_db:
  "files w (dbFile self) = Some (Sqlite db) \<Longrightarrow>
     dumpTables self sfx e w = (Return (), written (dbFile self) db (epoch_writes sfx e) w)"
proof (induction e arbitrary: w db)
  case Nil
  then show ?case by (simp add: epoch_writes_def written_Nil)
next
  case (Cons x e)
  obtain n t where x: "x = (n, t)" by (cases x)
  let ?w1 = "w\<lparr>files := (files w)(dbFile self \<mapsto> Sqlite (db(n @ sfx \<mapsto> normalize t)))\<rparr>"
  have "files ?w1 (dbFile self) = Some (Sqlite (db(n @ sfx \<mapsto> normalize t)))" by simp
  then have 2: "dumpTables self sfx e ?w1
      = (Return (), written (dbFile self) (db(n @ sfx \<mapsto> normalize t)) (epoch_writes sfx e) ?w1)"
    by (rule Cons.IH)
  have 1: "to_sql (n @ sfx) (normalize t) (dbFile self) w = (Return (), ?w1)"
    by (rule to_sql_db [OF Cons.prems])
  have 3: "written (dbFile self) (db(n @ sfx \<mapsto> normalize t)) (epoch_writes sfx e) ?w1
      = written (dbFile self) db ((n @ sfx, normalize t) # epoch_writes sfx e) w"
    by (rule written_step)
  have 4: "epoch_writes sfx (x # e) = (n @ sfx, normalize t) # epoch_writes sfx e"
    by (simp add: x epoch_writes_def)
  show ?case
    unfolding 4 unfolding x by (simp only: dumpTables.simps 1 2 3 prod.case result.case)
qed

lemma dumpTables_not_db:
  "db_of w (dbFile self) = None \<Longrightarrow>
     dumpTables self sfx e w = ((if e = [] then Return () else Raise DatabaseError), w)"
  by (cases e) (auto simp: to_sql_not_db)

lemma db_of_connect:
  "db_of (sqlite_connect p tmo w) p = db_of w p"
  by (auto simp: sqlite_connect_def db_of_def path_exists_def split: option.splits)

lemma dumpEpoch_db:
  assumes "db_of w (dbFile self) = Some db"
  shows "dumpEpoch self e sfx w = (Return (), written (dbFile self) db (epoch_writes sfx e) w)"
proof (cases "files w (dbFile self)")
  case None
  let ?w1 = "w\<lparr>files := (files w)(dbFile self \<mapsto> Sqlite Map.empty)\<rparr>"
  from None assms have db: "db = Map.empty" by (simp add: db_of_def)
  have "files ?w1 (dbFile self) = Some (Sqlite Map.empty)" by simp
  from dumpTables_db [OF this] None show ?thesis
    by (simp add: dumpEpoch_def sqlite_connect_def path_exists_def db written_def)
next
  case (Some x)
  with assms have "files w (dbFile self) = Some (Sqlite db)"
    by (auto simp: db_of_def split: fileData.splits)
  from dumpTables_db [OF this] Some show ?thesis
    by (simp add: dumpEpoch_def sqlite_connect_def path_exists_def)
qed

lemma dumpEpoch_not_db:
  assumes "db_of w (dbFile self) = None"
  shows "dumpEpoch self e sfx w = ((if e = [] then Return () else Raise DatabaseError), w)"
proof -
  from assms have "files w (dbFile self) \<noteq> None" by (auto simp: db_of_def split: option.splits)
  then have "sqlite_connect (dbFile self) (timeout self) w = w"
    by (simp add: sqlite_connect_def path_exists_def)
  with dumpTables_not_db [OF assms] show ?thesis by (simp add: dumpEpoch_def)
qed

lemma db_of_written: "db_of (written p db ws w) p = Some (db ++ map_of (rev ws))"
  by (simp add: written_def db_of_def)

lemma written_written:
  "written p (db ++ map_of (rev ws1)) ws2 (written p db ws1 w) = written p db (ws1 @ ws2) w"
  by (simp add: written_def)

lemma dumpEpochs_db:
  "db_of w (dbFile self) = Some db \<Longrightarrow> ies \<noteq> [] \<Longrightarrow>
     dumpEpochs self ies w = (Return (), written (dbFile self) db (epochs_writes ies) w)"
proof (induction ies arbitrary: w db)
  case Nil
  then show ?case by simp
next
  case (Cons x ies)
  obtain i e where x: "x = (i, e)" by (cases x)
  let ?w1 = "written (dbFile self) db (epoch_writes (epoch_suffix i) e) w"
  have step: "dumpEpoch self e (epoch_suffix i) w = (Return (), ?w1)"
    by (rule dumpEpoch_db [OF Cons.prems(1)])
  show ?case
  proof (cases "ies = []")
    case True
    with step show ?thesis by (simp add: x epochs_writes_def)
  next
    case False
    from Cons.IH [OF db_of_written False, of db "epoch_writes (epoch_suffix i) e" w] step
    show ?thesis by (simp add: x epochs_writes_def written_written)
  qed
qed

lemma dumpEpochs_not_db:
  "db_of w (dbFile self) = None \<Longrightarrow>
     dumpEpochs self ies w = ((if epochs_writes ies = [] then Return () else Raise DatabaseError), w)"
proof (induction ies)
  case Nil
  then show ?case by (simp add: epochs_writes_def)
next
  case (Cons x ies)
  obtain i e where x: "x = (i, e)" by (cases x)
  from Cons dumpEpoch_not_db [OF Cons.prems, of e "epoch_suffix i"] show ?case
    by (auto simp: x epochs_writes_def epoch_writes_def)
qed

lemma dump_body_db:
  assumes "db_of w (dbFile self) = Some db" "data \<noteq> []"
  shows "dump_body data self w = (Return (), written (dbFile self) db (dump_writes data) w)"
proof (cases "length data = 1")
  case True
  with dumpEpoch_db [OF assms(1)] show ?thesis by (simp add: dump_body_def dump_writes_def)
next
  case False
  with assms(2) have "enumerate 0 data \<noteq> []" by (cases data) auto
  from dumpEpochs_db [OF assms(1) this] False assms(2) show ?thesis
    by (simp add: dump_body_def dump_writes_def)
qed

lemma dump_body_not_db:
  assumes "db_of w (dbFile self) = None"
  shows "dump_body data self w = ((if dump_writes data = [] then Return () else Raise DatabaseError), w)"
proof -
  have e: "epoch_writes [] x = [] \<longleftrightarrow> x = []" for x by (simp add: epoch_writes_def)
  show ?thesis
    using dumpEpoch_not_db [OF assms] dumpEpochs_not_db [OF assms]
    by (auto simp: dump_body_def dump_writes_def epochs_writes_def e)
qed

section \<open>Table names\<close>

text \<open>
  The decimal rendering of an index has no colon and determines the index, so a suffixed name
  determines both the table name and the epoch index.
\<close>

lemma lt10_cases:
  "d < (10::nat) \<Longrightarrow> d = 0 \<or> d = 1 \<or> d = 2 \<or> d = 3 \<or> d = 4 \<or> d = 5 \<or> d = 6 \<or> d = 7 \<or> d = 8 \<or> d = 9"
  by arith

lemma of_char_digit_char: "d < 10 \<Longrightarrow> (of_char (digit_char d) :: nat) = 48 + d"
  using lt10_cases [of d] by (auto simp: digit_char_def)

lemma digit_char_not_colon: "d < 10 \<Longrightarrow> digit_char d \<noteq> CHR '':''"
  using lt10_cases [of d] by (auto simp: digit_char_def)

lemma colon_notin_py_str_nat: "CHR '':'' \<notin> set (py_str_nat n)"
proof (induction n rule: py_str_nat.induct)
  case (1 n)
  show ?case
  proof (cases "n < 10")
    case True
    then show ?thesis using digit_char_not_colon [of n] by (subst py_str_nat.simps) auto
  next
    case False
    have "n mod 10 < 10" by simp
    from digit_char_not_colon [OF this] "1.IH" [OF False] False show ?thesis
      by (subst py_str_nat.simps) auto
  qed
qed

lemma py_str_nat_value:
  "foldl (\<lambda>a c. 10 * a + (of_char c - 48)) 0 (py_str_nat n) = n"
proof (induction n rule: py_str_nat.induct)
  case (1 n)
  show ?case
  proof (cases "n < 10")
    case True
    then show ?thesis by (subst py_str_nat.simps) (simp add: of_char_digit_char)
  next
    case False
    have "n mod 10 < 10" by simp
    from of_char_digit_char [OF this] "1.IH" [OF False] False show ?thesis
      by (subst py_str_nat.simps) simp
  qed
qed

lemma py_str_nat_inj: "py_str_nat i = py_str_nat j \<Longrightarrow> i = j"
  using py_str_nat_value [of i] py_str_nat_value [of j] by simp

lemma split_at_last_sep:
  assumes "a @ c # x = b @ c # y" "c \<notin> set x" "c \<notin> set y"
  shows "a = b \<and> x = y"
proof -
  have "takeWhile (\<lambda>z. z \<noteq> c) (rev (a @ c # x)) = rev x"
    using assms(2) by (auto simp: takeWhile_tail)
  moreover have "takeWhile (\<lambda>z. z \<noteq> c) (rev (b @ c # y)) = rev y"
    using assms(3) by (auto simp: takeWhile_tail)
  ultimately have "x = y" using assms(1) by simp
  with assms(1) show ?thesis by simp
qed

lemma epoch_suffix_inj:
  assumes "n @ epoch_suffix i = m @ epoch_suffix j"
  shows "n = m \<and> i = j"
proof -
  have e: "n @ epoch_suffix i = (n @ ''_epoch'') @ CHR '':'' # py_str_nat i" for n i
    unfolding epoch_suffix_def by simp
  from assms have "(n @ ''_epoch'') @ CHR '':'' # py_str_nat i = (m @ ''_epoch'') @ CHR '':'' # py_str_nat j"
    by (simp only: e)
  from split_at_last_sep [OF this colon_notin_py_str_nat colon_notin_py_str_nat]
  have "n @ ''_epoch'' = m @ ''_epoch''" and "py_str_nat i = py_str_nat j" by blast+
  then show ?thesis using py_str_nat_inj [of i j] by simp
qed

lemma fst_epoch_writes: "map fst (epoch_writes sfx e) = map (\<lambda>n. n @ sfx) (map fst e)"
  by (simp add: epoch_writes_def case_prod_beta comp_def)

lemma distinct_epoch_writes:
  "distinct (map fst e) \<Longrightarrow> distinct (map fst (epoch_writes sfx e))"
  by (simp add: fst_epoch_writes distinct_map inj_on_def del: map_map)

lemma distinct_epochs_writes:
  "distinct (map fst ies) \<Longrightarrow> \<forall>(i, e)\<in>set ies. distinct (map fst e) \<Longrightarrow>
     distinct (map fst (epochs_writes ies))"
proof (induction ies)
  case Nil
  then show ?case by (simp add: epochs_writes_def)
next
  case (Cons x ies)
  obtain i e where x: "x = (i, e)" by (cases x)
  have tl: "distinct (map fst (epochs_writes ies))" using Cons by simp
  have hd: "distinct (map fst (epoch_writes (epoch_suffix i) e))"
    using Cons.prems(2) by (simp add: x distinct_epoch_writes)
  have disj: "set (map fst (epoch_writes (epoch_suffix i) e)) \<inter> set (map fst (epochs_writes ies)) = {}"
  proof (rule ccontr)
    assume "\<not> ?thesis"
    then obtain k where k1: "k \<in> set (map fst (epoch_writes (epoch_suffix i) e))"
      and k2: "k \<in> set (map fst (epochs_writes ies))" by auto
    from k1 obtain n where n: "k = n @ epoch_suffix i" by (auto simp: epoch_writes_def)
    from k2 obtain j e' m where j: "(j, e') \<in> set ies" "k = m @ epoch_suffix j"
      by (auto simp: epochs_writes_def epoch_writes_def)
    from n j(2) epoch_suffix_inj have "i = j" by blast
    with j(1) Cons.prems(1) show False by (auto simp: x intro: rev_image_eqI)
  qed
  have "epochs_writes (x # ies) = epoch_writes (epoch_suffix i) e @ epochs_writes ies"
    by (simp add: x epochs_writes_def)
  with hd tl disj show ?case by simp
qed

lemma distinct_dump_writes:
  assumes "\<forall>e\<in>set data. distinct (map fst e)"
  shows "distinct (map fst (dump_writes data))"
proof (cases "length data = 1")
  case True
  then obtain e where "data = [e]" by (cases data) auto
  with assms show ?thesis by (simp add: dump_writes_def distinct_epoch_writes)
next
  case False
  have "\<forall>(i, e)\<in>set (enumerate 0 data). distinct (map fst e)"
    using assms by (auto simp: in_set_enumerate_eq)
  with False show ?thesis by (simp add: dump_writes_def distinct_epochs_writes)
qed

lemma lookup_written:
  "distinct (map fst ws) \<Longrightarrow> (k, v) \<in> set ws \<Longrightarrow> (db ++ map_of (rev ws)) k = Some v"
  by (simp add: map_add_Some_iff rev_map [symmetric])

lemma lookup_unwritten:
  "k \<notin> fst ` set ws \<Longrightarrow> (db ++ map_of (rev ws)) k = db k"
  by (simp add: map_add_def map_of_eq_None_iff [THEN iffD2])

lemma epochs_writes_mem:
  "(k, v) \<in> set (epochs_writes (enumerate 0 data)) \<longleftrightarrow>
     (\<exists>i<length data. \<exists>(n, t)\<in>set (data ! i). k = n @ epoch_suffix i \<and> v = normalize t)"
proof
  assume "(k, v) \<in> set (epochs_writes (enumerate 0 data))"
  then obtain i e n t where "(i, e) \<in> set (enumerate 0 data)" "(n, t) \<in> set e"
    "k = n @ epoch_suffix i" "v = normalize t"
    by (auto simp: epochs_writes_def epoch_writes_def)
  then show "\<exists>i<length data. \<exists>(n, t)\<in>set (data ! i). k = n @ epoch_suffix i \<and> v = normalize t"
    by (auto simp: in_set_enumerate_eq intro!: exI [of _ i] bexI [of _ "(n, t)"])
next
  assume "\<exists>i<length data. \<exists>(n, t)\<in>set (data ! i). k = n @ epoch_suffix i \<and> v = normalize t"
  then obtain i n t where i: "i < length data" "(n, t) \<in> set (data ! i)"
    "k = n @ epoch_suffix i" "v = normalize t" by auto
  then have "(i, data ! i) \<in> set (enumerate 0 data)" by (simp add: in_set_enumerate_eq)
  moreover have "(k, v) \<in> set (epoch_writes (epoch_suffix i) (data ! i))"
    using i by (auto simp: epoch_writes_def intro!: rev_image_eqI [of "(n, t)"])
  ultimately show "(k, v) \<in> set (epochs_writes (enumerate 0 data))"
    by (auto simp: epochs_writes_def intro!: bexI [of _ "(i, data ! i)"])
qed

section \<open>Reading tables\<close>

text \<open>
  C10. \<^verbatim>\<open>load\<close> on a coordinator of either mode, when no file exists at \<^verbatim>\<open>dbFile\<close>, raises an
  exception whose message names the missing file; it returns no table collection and leaves
  the file system as it was, so the file is not created.
\<close>

theorem load_missing_file:
  "files w (dbFile self) = None \<Longrightarrow>
     load self w = (Raise (Exception (PyStr (''Database file '' @ dbFile self @ '' does not exist!''))), w)
     \<and> files (snd (load self w)) (dbFile self) = None"
  by (simp add: load_def path_exists_def)

theorem load_missing_file_witness:
  "files \<lparr>files = Map.empty, heldElsewhere = {}\<rparr>
     (dbFile \<lparr>dbFile = ''run.sqlite'', forceOverwrite = False, timeout = 900, readOnly = True, metadata = Map.empty\<rparr>) = None
   \<and> load \<lparr>dbFile = ''run.sqlite'', forceOverwrite = False, timeout = 900, readOnly = True, metadata = Map.empty\<rparr>
        \<lparr>files = Map.empty, heldElsewhere = {}\<rparr>
      = (Raise (Exception (PyStr ''Database file run.sqlite does not exist!'')), \<lparr>files = Map.empty, heldElsewhere = {}\<rparr>)"
  using load_missing_file [of "\<lparr>files = Map.empty, heldElsewhere = {}\<rparr>"
      "\<lparr>dbFile = ''run.sqlite'', forceOverwrite = False, timeout = 900, readOnly = True, metadata = Map.empty\<rparr>"]
  by simp

section \<open>What a dump stores\<close>

lemma dump_writer:
  assumes "\<not> readOnly self" "db_of w (dbFile self) = Some db" "data \<noteq> []"
  shows "dump self data w
    = (Return (), w\<lparr>files := (files w)(dbFile self \<mapsto> Sqlite (db ++ map_of (rev (dump_writes data))))\<rparr>)"
  using dump_body_db [OF assms(2,3)] assms(1)
  by (simp add: dump_def checkReadOnly_def written_def)

lemma epoch_writes_mem:
  "(k, v) \<in> set (epoch_writes sfx e) \<longleftrightarrow> (\<exists>(n, t)\<in>set e. k = n @ sfx \<and> v = normalize t)"
  by (auto simp: epoch_writes_def)

lemma dump_writes_single: "dump_writes [e] = epoch_writes [] e"
  by (simp add: dump_writes_def)

lemma dump_writes_multi: "1 < length data \<Longrightarrow> dump_writes data = epochs_writes (enumerate 0 data)"
  by (simp add: dump_writes_def)

lemma dump_writes_mem:
  assumes "i < length data" "(n, t) \<in> set (data ! i)"
  shows "(n @ (if length data = 1 then [] else epoch_suffix i), normalize t) \<in> set (dump_writes data)"
proof (cases "length data = 1")
  case True
  with assms have "i = 0" by simp
  with assms True show ?thesis by (force simp: dump_writes_def epoch_writes_def)
next
  case False
  from assms have "(n @ epoch_suffix i, normalize t) \<in> set (epochs_writes (enumerate 0 data))"
    unfolding epochs_writes_mem by blast
  with False show ?thesis by (simp add: dump_writes_def)
qed

lemma dump_stored:
  assumes "\<not> readOnly self" "db_of w (dbFile self) = Some db"
    and "\<forall>e\<in>set data. distinct (map fst e)" "i < length data" "(n, t) \<in> set (data ! i)"
  shows "\<exists>db'. dump self data w = (Return (), w\<lparr>files := (files w)(dbFile self \<mapsto> Sqlite db')\<rparr>)
      \<and> db' (n @ (if length data = 1 then [] else epoch_suffix i)) = Some (normalize t)"
proof -
  from assms(4) have ne: "data \<noteq> []" by auto
  from lookup_written [OF distinct_dump_writes [OF assms(3)] dump_writes_mem [OF assms(4,5)] ]
    dump_writer [OF assms(1,2) ne]
  show ?thesis by blast
qed

lemma normalize_columns:
  "map fst (normalize t) = map fst t"
  "j < length t \<Longrightarrow>
     snd (normalize t ! j) = (if fst (t ! j) = ''DEV_GPU_UTIL'' then map rescale (snd (t ! j)) else snd (t ! j))"
proof -
  show "map fst (normalize t) = map fst t"
    by (induction t) (auto simp: normalize_def)
  assume j: "j < length t"
  show "snd (normalize t ! j) = (if fst (t ! j) = ''DEV_GPU_UTIL'' then map rescale (snd (t ! j)) else snd (t ! j))"
  proof (cases "''DEV_GPU_UTIL'' \<in> set (map fst t)")
    case True
    with j show ?thesis by (simp add: normalize_def case_prod_beta)
  next
    case False
    with j have "fst (t ! j) \<noteq> ''DEV_GPU_UTIL''" by (metis length_map nth_map nth_mem)
    with False show ?thesis by (simp add: normalize_def)
  qed
qed

lemma rescale_percent:
  "rescale (IntV 100) = FloatV 1"
  "rescale (IntV 0) = FloatV 0"
  "0 \<le> p \<and> p \<le> 100 \<longrightarrow> (\<exists>r. rescale (IntV p) = FloatV r \<and> 0 \<le> r \<and> r \<le> 1)"
proof -
  show "rescale (IntV 100) = FloatV 1" "rescale (IntV 0) = FloatV 0"
    by (simp_all add: rescale_def)
  show "0 \<le> p \<and> p \<le> 100 \<longrightarrow> (\<exists>r. rescale (IntV p) = FloatV r \<and> 0 \<le> r \<and> r \<le> 1)"
    by (intro impI exI [of _ "real_of_int p / 100"]) (simp add: rescale_def)
qed

lemma dump_writes_iff:
  "(k, v) \<in> set (dump_writes data) \<longleftrightarrow>
     (\<exists>i<length data. \<exists>(n, t)\<in>set (data ! i).
         k = n @ (if length data = 1 then [] else epoch_suffix i) \<and> v = normalize t)"
proof (cases "length data = 1")
  case True
  then obtain e where e: "data = [e]" by (cases data) auto
  show ?thesis by (auto simp: e dump_writes_single epoch_writes_mem)
next
  case False
  then show ?thesis by (simp add: dump_writes_def epochs_writes_mem)
qed

lemma normalize_shape:
  "normalize t = [] \<longleftrightarrow> t = []"
  "map (\<lambda>c. length (snd c)) (normalize t) = map (\<lambda>c. length (snd c)) t"
  by (induction t) (auto simp: normalize_def)

lemma well_formed_normalize: "well_formed (normalize t) = well_formed t"
  by (simp add: well_formed_def normalize_shape normalize_columns(1) del: set_map)

section \<open>Names of the dumped tables\<close>

text \<open>
  C4. On a writer, \<^verbatim>\<open>dump\<close> of the empty list writes nothing. When the output path holds a
  database or no file yet and every epoch is a dict (its table names are distinct):
  \<^verbatim>\<open>dump\<close> of exactly one epoch stores each of its tables under its unsuffixed name, and
  \<^verbatim>\<open>dump\<close> of more than one epoch stores every table of the epoch at index \<open>i\<close> (from 0)
  under its name followed by \<^verbatim>\<open>_epoch:i\<close>; no other table of the database changes. So three
  epochs with a table \<^verbatim>\<open>gpu\<close> give \<^verbatim>\<open>gpu_epoch:0\<close>, \<^verbatim>\<open>gpu_epoch:1\<close>,
  \<^verbatim>\<open>gpu_epoch:2\<close>.
\<close>

theorem dump_table_names:
  assumes "\<not> readOnly self"
  shows "dump self [] w = (Return (), w)
    \<and> (db_of w (dbFile self) = Some db \<longrightarrow> distinct (map fst e) \<longrightarrow>
         (\<exists>db'. dump self [e] w = (Return (), w\<lparr>files := (files w)(dbFile self \<mapsto> Sqlite db')\<rparr>)
            \<and> (\<forall>(n, t)\<in>set e. db' n = Some (normalize t))
            \<and> (\<forall>k. k \<notin> fst ` set e \<longrightarrow> db' k = db k)))
    \<and> (db_of w (dbFile self) = Some db \<longrightarrow> 1 < length data \<longrightarrow> (\<forall>e\<in>set data. distinct (map fst e)) \<longrightarrow>
         (\<exists>db'. dump self data w = (Return (), w\<lparr>files := (files w)(dbFile self \<mapsto> Sqlite db')\<rparr>)
            \<and> (\<forall>i<length data. \<forall>(n, t)\<in>set (data ! i).
                  db' (n @ ''_epoch:'' @ py_str_nat i) = Some (normalize t))
            \<and> (\<forall>k. (\<forall>i<length data. \<forall>(n, t)\<in>set (data ! i). k \<noteq> n @ ''_epoch:'' @ py_str_nat i)
                  \<longrightarrow> db' k = db k)))"
proof (intro conjI impI)
  show "dump self [] w = (Return (), w)"
    using assms by (simp add: dump_def checkReadOnly_def dump_body_def)
next
  assume db: "db_of w (dbFile self) = Some db" and dist: "distinct (map fst e)"
  let ?ws = "epoch_writes [] e"
  let ?db' = "db ++ map_of (rev ?ws)"
  have run: "dump self [e] w = (Return (), w\<lparr>files := (files w)(dbFile self \<mapsto> Sqlite ?db')\<rparr>)"
    using dump_writer [OF assms db, of "[e]"] by (simp add: dump_writes_single)
  have dws: "distinct (map fst ?ws)" by (rule distinct_epoch_writes [OF dist])
  have in_db: "\<forall>(n, t)\<in>set e. ?db' n = Some (normalize t)"
  proof (clarify)
    fix n t assume "(n, t) \<in> set e"
    then have "(n, normalize t) \<in> set ?ws" by (auto simp: epoch_writes_mem)
    from lookup_written [OF dws this] show "?db' n = Some (normalize t)" .
  qed
  have rest: "\<forall>k. k \<notin> fst ` set e \<longrightarrow> ?db' k = db k"
  proof (intro allI impI)
    fix k assume "k \<notin> fst ` set e"
    then have "k \<notin> fst ` set ?ws" by (force simp: epoch_writes_def)
    then show "?db' k = db k" by (rule lookup_unwritten)
  qed
  from run in_db rest
  show "\<exists>db'. dump self [e] w = (Return (), w\<lparr>files := (files w)(dbFile self \<mapsto> Sqlite db')\<rparr>)
            \<and> (\<forall>(n, t)\<in>set e. db' n = Some (normalize t))
            \<and> (\<forall>k. k \<notin> fst ` set e \<longrightarrow> db' k = db k)"
    by blast
next
  assume db: "db_of w (dbFile self) = Some db" and len: "1 < length data"
    and dist: "\<forall>e\<in>set data. distinct (map fst e)"
  let ?ws = "epochs_writes (enumerate 0 data)"
  let ?db' = "db ++ map_of (rev ?ws)"
  from len have ne: "data \<noteq> []" by auto
  have run: "dump self data w = (Return (), w\<lparr>files := (files w)(dbFile self \<mapsto> Sqlite ?db')\<rparr>)"
    using dump_writer [OF assms db ne] len by (simp add: dump_writes_multi)
  have dws: "distinct (map fst ?ws)"
    using distinct_dump_writes [OF dist] len by (simp add: dump_writes_multi)
  have sfx: "''_epoch:'' @ py_str_nat i = epoch_suffix i" for i
    by (simp add: epoch_suffix_def)
  have in_db: "\<forall>i<length data. \<forall>(n, t)\<in>set (data ! i).
      ?db' (n @ ''_epoch:'' @ py_str_nat i) = Some (normalize t)"
  proof (intro allI impI, clarify)
    fix i n t assume "i < length data" "(n, t) \<in> set (data ! i)"
    then have "(n @ epoch_suffix i, normalize t) \<in> set ?ws"
      unfolding epochs_writes_mem by blast
    from lookup_written [OF dws this] show "?db' (n @ ''_epoch:'' @ py_str_nat i) = Some (normalize t)"
      by (simp only: sfx)
  qed
  have rest: "\<forall>k. (\<forall>i<length data. \<forall>(n, t)\<in>set (data ! i). k \<noteq> n @ ''_epoch:'' @ py_str_nat i)
       \<longrightarrow> ?db' k = db k"
  proof (intro allI impI)
    fix k assume k: "\<forall>i<length data. \<forall>(n, t)\<in>set (data ! i). k \<noteq> n @ ''_epoch:'' @ py_str_nat i"
    have "k \<notin> fst ` set ?ws"
    proof
      assume "k \<in> fst ` set ?ws"
      then obtain v where "(k, v) \<in> set ?ws" by auto
      then obtain i n t where "i < length data" "(n, t) \<in> set (data ! i)" "k = n @ epoch_suffix i"
        unfolding epochs_writes_mem by blast
      with k show False unfolding sfx by blast
    qed
    then show "?db' k = db k" by (rule lookup_unwritten)
  qed
  from run in_db rest
  show "\<exists>db'. dump self data w = (Return (), w\<lparr>files := (files w)(dbFile self \<mapsto> Sqlite db')\<rparr>)
            \<and> (\<forall>i<length data. \<forall>(n, t)\<in>set (data ! i).
                  db' (n @ ''_epoch:'' @ py_str_nat i) = Some (normalize t))
            \<and> (\<forall>k. (\<forall>i<length data. \<forall>(n, t)\<in>set (data ! i). k \<noteq> n @ ''_epoch:'' @ py_str_nat i)
                  \<longrightarrow> db' k = db k)"
    by blast
qed

theorem dump_table_names_witness:
  "\<not> readOnly \<lparr>dbFile = ''o'', forceOverwrite = False, timeout = 900, readOnly = False, metadata = Map.empty\<rparr>
   \<and> db_of \<lparr>files = Map.empty, heldElsewhere = {}\<rparr> ''o'' = Some Map.empty
   \<and> (\<exists>db'. dump \<lparr>dbFile = ''o'', forceOverwrite = False, timeout = 900, readOnly = False, metadata = Map.empty\<rparr>
               [ [(''gpu'', [(''T'', [IntV 1])])], [(''gpu'', [(''T'', [IntV 2])])], [(''gpu'', [(''T'', [IntV 3])])] ]
               \<lparr>files = Map.empty, heldElsewhere = {}\<rparr>
             = (Return (), \<lparr>files = [''o'' \<mapsto> Sqlite db'], heldElsewhere = {}\<rparr>)
          \<and> db' ''gpu_epoch:0'' = Some [(''T'', [IntV 1])]
          \<and> db' ''gpu_epoch:1'' = Some [(''T'', [IntV 2])]
          \<and> db' ''gpu_epoch:2'' = Some [(''T'', [IntV 3])])"
proof -
  let ?c = "\<lparr>dbFile = ''o'', forceOverwrite = False, timeout = 900, readOnly = False, metadata = Map.empty\<rparr>"
  let ?w = "\<lparr>files = Map.empty, heldElsewhere = {}\<rparr>"
  let ?d = "[ [(''gpu'', [(''T'', [IntV 1])])], [(''gpu'', [(''T'', [IntV 2])])], [(''gpu'', [(''T'', [IntV 3])])] ]"
  have h1: "\<not> readOnly ?c" by simp
  have h2: "db_of ?w (dbFile ?c) = Some Map.empty" by (simp add: db_of_def)
  have h3: "1 < length ?d" by simp
  have h4: "\<forall>e\<in>set ?d. distinct (map fst e)" by simp
  from dump_table_names [OF h1, where w = ?w and db = Map.empty and data = ?d] h2 h3 h4
  obtain db' where run: "dump ?c ?d ?w = (Return (), ?w\<lparr>files := (files ?w)(dbFile ?c \<mapsto> Sqlite db')\<rparr>)"
    and tabs: "\<forall>i<length ?d. \<forall>(n, t)\<in>set (?d ! i). db' (n @ ''_epoch:'' @ py_str_nat i) = Some (normalize t)"
    by blast
  have t0: "db' ''gpu_epoch:0'' = Some [(''T'', [IntV 1])]"
    using tabs [rule_format, of 0 "(''gpu'', [(''T'', [IntV 1])])"] by (simp add: normalize_def digit_char_def)
  have t1: "db' ''gpu_epoch:1'' = Some [(''T'', [IntV 2])]"
    using tabs [rule_format, of 1 "(''gpu'', [(''T'', [IntV 2])])"] by (simp add: normalize_def digit_char_def)
  have t2: "db' ''gpu_epoch:2'' = Some [(''T'', [IntV 3])]"
    using tabs [rule_format, of 2 "(''gpu'', [(''T'', [IntV 3])])"] by (simp add: normalize_def digit_char_def)
  from run t0 t1 t2 h2 show ?thesis by (intro conjI exI [of _ db']) simp_all
qed

section \<open>The percentage column\<close>

text \<open>
  C5. The percentage metric is the column named \<^verbatim>\<open>DEV_GPU_UTIL\<close>, reported as an integer
  from 0 to 100. For a dump of well-formed tables, in every table that \<^verbatim>\<open>dump\<close> stores this
  column holds the floats obtained by dividing by 100, and every column with another name is
  stored as it was given; the stored table is well formed and keeps the column names and their
  order. An integer 100 becomes the float 1, an integer 0 the float 0, and an integer from 0 to
  100 a float from 0 to 1. Floats are modelled by the reals.
\<close>

theorem gpu_util_rescaled:
  assumes "\<not> readOnly self" "db_of w (dbFile self) = Some db"
    and "\<forall>e\<in>set data. distinct (map fst e)"
    and "\<forall>e\<in>set data. \<forall>(n, t)\<in>set e. well_formed t"
    and "i < length data" "(n, t) \<in> set (data ! i)"
  shows "(\<exists>db' t'. dump self data w = (Return (), w\<lparr>files := (files w)(dbFile self \<mapsto> Sqlite db')\<rparr>)
      \<and> db' (n @ (if length data = 1 then [] else ''_epoch:'' @ py_str_nat i)) = Some t'
      \<and> well_formed t'
      \<and> map fst t' = map fst t
      \<and> (\<forall>j<length t. snd (t' ! j) =
            (if fst (t ! j) = ''DEV_GPU_UTIL'' then map rescale (snd (t ! j)) else snd (t ! j))))
    \<and> rescale (IntV 100) = FloatV 1
    \<and> rescale (IntV 0) = FloatV 0
    \<and> (\<forall>p. 0 \<le> p \<and> p \<le> 100 \<longrightarrow> (\<exists>r. rescale (IntV p) = FloatV r \<and> 0 \<le> r \<and> r \<le> 1))"
proof -
  from dump_stored [OF assms(1,2,3,5,6)] obtain db' where
    run: "dump self data w = (Return (), w\<lparr>files := (files w)(dbFile self \<mapsto> Sqlite db')\<rparr>)"
    and tab: "db' (n @ (if length data = 1 then [] else ''_epoch:'' @ py_str_nat i)) = Some (normalize t)"
    unfolding epoch_suffix_def by blast
  from assms(5) have "data ! i \<in> set data" by simp
  with assms(4,6) have "well_formed t" by blast
  then have wf: "well_formed (normalize t)" by (simp add: well_formed_normalize)
  have cols: "\<forall>j<length t. snd (normalize t ! j) =
      (if fst (t ! j) = ''DEV_GPU_UTIL'' then map rescale (snd (t ! j)) else snd (t ! j))"
    using normalize_columns(2) by blast
  from run tab wf cols normalize_columns(1) [of t]
  have "\<exists>db' t'. dump self data w = (Return (), w\<lparr>files := (files w)(dbFile self \<mapsto> Sqlite db')\<rparr>)
      \<and> db' (n @ (if length data = 1 then [] else ''_epoch:'' @ py_str_nat i)) = Some t'
      \<and> well_formed t'
      \<and> map fst t' = map fst t
      \<and> (\<forall>j<length t. snd (t' ! j) =
            (if fst (t ! j) = ''DEV_GPU_UTIL'' then map rescale (snd (t ! j)) else snd (t ! j)))"
    by blast
  then show ?thesis using rescale_percent by blast
qed

theorem gpu_util_rescaled_witness:
  "well_formed [(''gpuId'', [IntV 0, IntV 0, IntV 1]), (''DEV_GPU_UTIL'', [IntV 100, IntV 0, IntV 50]),
                (''DEV_FB_USED'', [IntV 1024, IntV 2048, IntV 4096])]
   \<and> (\<exists>db'. dump \<lparr>dbFile = ''o'', forceOverwrite = False, timeout = 900, readOnly = False, metadata = Map.empty\<rparr>
            [ [(''gpu'', [(''gpuId'', [IntV 0, IntV 0, IntV 1]), (''DEV_GPU_UTIL'', [IntV 100, IntV 0, IntV 50]),
                          (''DEV_FB_USED'', [IntV 1024, IntV 2048, IntV 4096])])] ]
            \<lparr>files = Map.empty, heldElsewhere = {}\<rparr>
          = (Return (), \<lparr>files = [''o'' \<mapsto> Sqlite db'], heldElsewhere = {}\<rparr>)
     \<and> db' ''gpu'' = Some [(''gpuId'', [IntV 0, IntV 0, IntV 1]),
                           (''DEV_GPU_UTIL'', [FloatV 1, FloatV 0, FloatV (1 / 2)]),
                           (''DEV_FB_USED'', [IntV 1024, IntV 2048, IntV 4096])])"
proof -
  let ?c = "\<lparr>dbFile = ''o'', forceOverwrite = False, timeout = 900, readOnly = False, metadata = Map.empty\<rparr>"
  let ?w = "\<lparr>files = Map.empty, heldElsewhere = {}\<rparr>"
  let ?t = "[(''gpuId'', [IntV 0, IntV 0, IntV 1]), (''DEV_GPU_UTIL'', [IntV 100, IntV 0, IntV 50]),
             (''DEV_FB_USED'', [IntV 1024, IntV 2048, IntV 4096])]"
  let ?d = "[ [(''gpu'', ?t)] ]"
  have wf: "well_formed ?t" by (simp add: well_formed_def)
  have h1: "\<not> readOnly ?c" by simp
  have h2: "db_of ?w (dbFile ?c) = Some Map.empty" by (simp add: db_of_def)
  have h3: "\<forall>e\<in>set ?d. distinct (map fst e)" by simp
  have h4: "\<forall>e\<in>set ?d. \<forall>(n, t)\<in>set e. well_formed t" using wf by simp
  have h5: "0 < length ?d" by simp
  have h6: "(''gpu'', ?t) \<in> set (?d ! 0)" by simp
  from gpu_util_rescaled [OF h1 h2 h3 h4 h5 h6]
  obtain db' t' where run: "dump ?c ?d ?w = (Return (), ?w\<lparr>files := (files ?w)(dbFile ?c \<mapsto> Sqlite db')\<rparr>)"
    and tab: "db' ''gpu'' = Some t'"
    and names: "map fst t' = map fst ?t"
    and cols: "\<forall>j<length ?t. snd (t' ! j) =
            (if fst (?t ! j) = ''DEV_GPU_UTIL'' then map rescale (snd (?t ! j)) else snd (?t ! j))"
    by auto
  from names obtain a b c where t': "t' = [a, b, c]" by (auto simp: map_eq_Cons_conv)
  with names have abc: "fst a = ''gpuId''" "fst b = ''DEV_GPU_UTIL''" "fst c = ''DEV_FB_USED''" by simp_all
  from cols [rule_format, of 0] cols [rule_format, of 1] cols [rule_format, of 2] t'
  have "snd a = [IntV 0, IntV 0, IntV 1]" "snd b = [FloatV 1, FloatV 0, FloatV (1 / 2)]"
    "snd c = [IntV 1024, IntV 2048, IntV 4096]"
    by (simp_all add: rescale_def)
  with abc t' have "t' = [(''gpuId'', [IntV 0, IntV 0, IntV 1]),
       (''DEV_GPU_UTIL'', [FloatV 1, FloatV 0, FloatV (1 / 2)]),
       (''DEV_FB_USED'', [IntV 1024, IntV 2048, IntV 4096])]"
    by (cases a; cases b; cases c) simp
  with run tab wf show ?thesis by (intro conjI exI [of _ db']) simp_all
qed

section \<open>Dumping twice\<close>

text \<open>
  C6. Running \<^verbatim>\<open>dump\<close> a second time with the same epoch list, on the file system the
  first run left behind, gives the same outcome and the same file system as the first run alone.
  On a writer whose output path holds a database or no file yet, with epochs that are dicts, a
  dump succeeds and each table write replaces whatever table of that exact name the database
  held: afterwards every dumped table is stored under its name with exactly the contents of this
  dump, every table with another name is as before, no other file has changed, and running the
  same dump again returns and leaves the file system as it is.
\<close>

theorem dump_last_write_wins:
  "dump self data (snd (dump self data w)) = dump self data w
   \<and> (\<not> readOnly self \<longrightarrow> db_of w (dbFile self) = Some db \<longrightarrow> (\<forall>e\<in>set data. distinct (map fst e)) \<longrightarrow>
        (\<exists>db'. fst (dump self data w) = Return ()
           \<and> db_of (snd (dump self data w)) (dbFile self) = Some db'
           \<and> (\<forall>i<length data. \<forall>(n, t)\<in>set (data ! i).
                 db' (n @ (if length data = 1 then [] else ''_epoch:'' @ py_str_nat i)) = Some (normalize t))
           \<and> (\<forall>k. (\<forall>i<length data. \<forall>(n, t)\<in>set (data ! i).
                       k \<noteq> n @ (if length data = 1 then [] else ''_epoch:'' @ py_str_nat i))
                 \<longrightarrow> db' k = db k)
           \<and> (\<forall>p. p \<noteq> dbFile self \<longrightarrow> files (snd (dump self data w)) p = files w p)
           \<and> dump self data (snd (dump self data w)) = (Return (), snd (dump self data w))))"
proof (intro conjI impI)
  show twice: "dump self data (snd (dump self data w)) = dump self data w"
  proof (cases "readOnly self \<or> data = []")
    case True
    then show ?thesis by (auto simp: dump_def checkReadOnly_def dump_body_def)
  next
    case False
    then have d: "dump self data = dump_body data self"
      by (simp add: dump_def checkReadOnly_def fun_eq_iff)
    from False have ne: "data \<noteq> []" by simp
    show ?thesis
    proof (cases "db_of w (dbFile self)")
      case None
      from dump_body_not_db [OF this] show ?thesis by (simp add: d)
    next
      case (Some db0)
      let ?ws = "dump_writes data"
      have 1: "dump_body data self w = (Return (), written (dbFile self) db0 ?ws w)"
        by (rule dump_body_db [OF Some ne])
      have 2: "dump_body data self (written (dbFile self) db0 ?ws w)
          = (Return (), written (dbFile self) (db0 ++ map_of (rev ?ws)) ?ws (written (dbFile self) db0 ?ws w))"
        by (rule dump_body_db [OF db_of_written ne])
      have "(db0 ++ m) ++ m = db0 ++ m" for m :: database
        by (simp add: fun_eq_iff map_add_def split: option.splits)
      then have 3: "written (dbFile self) (db0 ++ map_of (rev ?ws)) ?ws (written (dbFile self) db0 ?ws w)
          = written (dbFile self) db0 ?ws w"
        by (simp add: written_def)
      show ?thesis by (simp add: d 1 2 3)
    qed
  qed
  assume wr: "\<not> readOnly self" and db: "db_of w (dbFile self) = Some db"
    and dist: "\<forall>e\<in>set data. distinct (map fst e)"
  let ?w1 = "snd (dump self data w)"
  let ?name = "\<lambda>i n. n @ (if length data = 1 then [] else ''_epoch:'' @ py_str_nat i)"
  have sfx: "''_epoch:'' @ py_str_nat i = epoch_suffix i" for i
    by (simp add: epoch_suffix_def)
  show "\<exists>db'. fst (dump self data w) = Return ()
           \<and> db_of ?w1 (dbFile self) = Some db'
           \<and> (\<forall>i<length data. \<forall>(n, t)\<in>set (data ! i). db' (?name i n) = Some (normalize t))
           \<and> (\<forall>k. (\<forall>i<length data. \<forall>(n, t)\<in>set (data ! i). k \<noteq> ?name i n) \<longrightarrow> db' k = db k)
           \<and> (\<forall>p. p \<noteq> dbFile self \<longrightarrow> files ?w1 p = files w p)
           \<and> dump self data ?w1 = (Return (), ?w1)"
  proof (cases "data = []")
    case True
    with wr have "dump self data w = (Return (), w)"
      by (simp add: dump_def checkReadOnly_def dump_body_def)
    with True db show ?thesis by simp
  next
    case False
    let ?ws = "dump_writes data"
    let ?db' = "db ++ map_of (rev ?ws)"
    have run: "dump self data w
        = (Return (), w\<lparr>files := (files w)(dbFile self \<mapsto> Sqlite ?db')\<rparr>)"
      by (rule dump_writer [OF wr db False])
    have r1: "fst (dump self data w) = Return ()" by (simp add: run)
    have r2: "db_of ?w1 (dbFile self) = Some ?db'" by (simp add: run db_of_def)
    have dws: "distinct (map fst ?ws)" by (rule distinct_dump_writes [OF dist])
    have r3: "\<forall>i<length data. \<forall>(n, t)\<in>set (data ! i). ?db' (?name i n) = Some (normalize t)"
    proof (intro allI impI, clarify)
      fix i n t assume "i < length data" "(n, t) \<in> set (data ! i)"
      from lookup_written [OF dws dump_writes_mem [OF this] ]
      show "?db' (?name i n) = Some (normalize t)" by (simp only: sfx)
    qed
    have r4: "\<forall>k. (\<forall>i<length data. \<forall>(n, t)\<in>set (data ! i). k \<noteq> ?name i n) \<longrightarrow> ?db' k = db k"
    proof (intro allI impI)
      fix k assume k: "\<forall>i<length data. \<forall>(n, t)\<in>set (data ! i). k \<noteq> ?name i n"
      have "k \<notin> fst ` set ?ws"
      proof
        assume "k \<in> fst ` set ?ws"
        then obtain v where "(k, v) \<in> set ?ws" by auto
        then obtain i n t where "i < length data" "(n, t) \<in> set (data ! i)"
          "k = n @ (if length data = 1 then [] else epoch_suffix i)"
          unfolding dump_writes_iff by blast
        with k show False unfolding sfx by blast
      qed
      then show "?db' k = db k" by (rule lookup_unwritten)
    qed
    have r5: "\<forall>p. p \<noteq> dbFile self \<longrightarrow> files ?w1 p = files w p" by (simp add: run)
    have r6: "dump self data ?w1 = (Return (), ?w1)"
      using twice by (simp add: run)
    from r1 r2 r3 r4 r5 r6 show ?thesis by blast
  qed
qed

theorem dump_last_write_wins_witness:
  "\<exists>db'. fst (dump \<lparr>dbFile = ''o'', forceOverwrite = False, timeout = 900, readOnly = False, metadata = Map.empty\<rparr>
               [ [(''gpu'', [(''gpuId'', [IntV 0, IntV 1]), (''DEV_GPU_UTIL'', [IntV 100, IntV 50])])] ]
               \<lparr>files = [''o'' \<mapsto> Sqlite
                   [''gpu'' \<mapsto> [(''gpuId'', [IntV 0, IntV 0, IntV 0]), (''DEV_GPU_UTIL'', [FloatV 0, FloatV 0, FloatV 0])],
                    ''mem'' \<mapsto> [(''gpuId'', [IntV 0]), (''DEV_FB_USED'', [IntV 1024])] ] ],
                 heldElsewhere = {}\<rparr>) = Return ()
     \<and> db_of (snd (dump \<lparr>dbFile = ''o'', forceOverwrite = False, timeout = 900, readOnly = False, metadata = Map.empty\<rparr>
               [ [(''gpu'', [(''gpuId'', [IntV 0, IntV 1]), (''DEV_GPU_UTIL'', [IntV 100, IntV 50])])] ]
               \<lparr>files = [''o'' \<mapsto> Sqlite
                   [''gpu'' \<mapsto> [(''gpuId'', [IntV 0, IntV 0, IntV 0]), (''DEV_GPU_UTIL'', [FloatV 0, FloatV 0, FloatV 0])],
                    ''mem'' \<mapsto> [(''gpuId'', [IntV 0]), (''DEV_FB_USED'', [IntV 1024])] ] ],
                 heldElsewhere = {}\<rparr>)) ''o'' = Some db'
     \<and> db' ''gpu'' = Some [(''gpuId'', [IntV 0, IntV 1]), (''DEV_GPU_UTIL'', [FloatV 1, FloatV (1 / 2)])]
     \<and> db' ''mem'' = Some [(''gpuId'', [IntV 0]), (''DEV_FB_USED'', [IntV 1024])]
     \<and> dump \<lparr>dbFile = ''o'', forceOverwrite = False, timeout = 900, readOnly = False, metadata = Map.empty\<rparr>
          [ [(''gpu'', [(''gpuId'', [IntV 0, IntV 1]), (''DEV_GPU_UTIL'', [IntV 100, IntV 50])])] ]
          (snd (dump \<lparr>dbFile = ''o'', forceOverwrite = False, timeout = 900, readOnly = False, metadata = Map.empty\<rparr>
               [ [(''gpu'', [(''gpuId'', [IntV 0, IntV 1]), (''DEV_GPU_UTIL'', [IntV 100, IntV 50])])] ]
               \<lparr>files = [''o'' \<mapsto> Sqlite
                   [''gpu'' \<mapsto> [(''gpuId'', [IntV 0, IntV 0, IntV 0]), (''DEV_GPU_UTIL'', [FloatV 0, FloatV 0, FloatV 0])],
                    ''mem'' \<mapsto> [(''gpuId'', [IntV 0]), (''DEV_FB_USED'', [IntV 1024])] ] ],
                 heldElsewhere = {}\<rparr>))
       = (Return (),
          snd (dump \<lparr>dbFile = ''o'', forceOverwrite = False, timeout = 900, readOnly = False, metadata = Map.empty\<rparr>
               [ [(''gpu'', [(''gpuId'', [IntV 0, IntV 1]), (''DEV_GPU_UTIL'', [IntV 100, IntV 50])])] ]
               \<lparr>files = [''o'' \<mapsto> Sqlite
                   [''gpu'' \<mapsto> [(''gpuId'', [IntV 0, IntV 0, IntV 0]), (''DEV_GPU_UTIL'', [FloatV 0, FloatV 0, FloatV 0])],
                    ''mem'' \<mapsto> [(''gpuId'', [IntV 0]), (''DEV_FB_USED'', [IntV 1024])] ] ],
                 heldElsewhere = {}\<rparr>))"
proof -
  let ?c = "\<lparr>dbFile = ''o'', forceOverwrite = False, timeout = 900, readOnly = False, metadata = Map.empty\<rparr>"
  let ?t = "[(''gpuId'', [IntV 0, IntV 1]), (''DEV_GPU_UTIL'', [IntV 100, IntV 50])]"
  let ?d = "[ [(''gpu'', ?t)] ]"
  let ?db = "[''gpu'' \<mapsto> [(''gpuId'', [IntV 0, IntV 0, IntV 0]), (''DEV_GPU_UTIL'', [FloatV 0, FloatV 0, FloatV 0])],
              ''mem'' \<mapsto> [(''gpuId'', [IntV 0]), (''DEV_FB_USED'', [IntV 1024])] ]"
  let ?w = "\<lparr>files = [''o'' \<mapsto> Sqlite ?db], heldElsewhere = {}\<rparr>"
  have h1: "\<not> readOnly ?c" by simp
  have h2: "db_of ?w (dbFile ?c) = Some ?db" by (simp add: db_of_def)
  have h3: "\<forall>e\<in>set ?d. distinct (map fst e)" by simp
  from dump_last_write_wins [of ?c ?d ?w ?db] h1 h2 h3
  obtain db' where ok: "fst (dump ?c ?d ?w) = Return ()"
    and db': "db_of (snd (dump ?c ?d ?w)) (dbFile ?c) = Some db'"
    and tabs: "\<forall>i<length ?d. \<forall>(n, t)\<in>set (?d ! i).
        db' (n @ (if length ?d = 1 then [] else ''_epoch:'' @ py_str_nat i)) = Some (normalize t)"
    and rest: "\<forall>k. (\<forall>i<length ?d. \<forall>(n, t)\<in>set (?d ! i).
        k \<noteq> n @ (if length ?d = 1 then [] else ''_epoch:'' @ py_str_nat i)) \<longrightarrow> db' k = ?db k"
    and again: "dump ?c ?d (snd (dump ?c ?d ?w)) = (Return (), snd (dump ?c ?d ?w))"
    by blast
  have gpu: "db' ''gpu'' = Some [(''gpuId'', [IntV 0, IntV 1]), (''DEV_GPU_UTIL'', [FloatV 1, FloatV (1 / 2)])]"
    using tabs [rule_format, of 0 "(''gpu'', ?t)"] by (simp add: normalize_def rescale_def)
  have mem: "db' ''mem'' = Some [(''gpuId'', [IntV 0]), (''DEV_FB_USED'', [IntV 1024])]"
    using rest [rule_format, of "''mem''"] by simp
  from ok db' gpu mem again show ?thesis by (intro exI [of _ db']) simp
qed

section \<open>The read-only guard and the metadata record\<close>

lemmas io_defs = checkReadOnly_def with_lock_def lock_acquire_def dumpMetadata_def dumpMetadata_body_def
  loadMetadata_def loadMetadata_body_def pickle_load_def path_exists_def lockFile_def metadataFile_def

text \<open>
  C7. On a coordinator opened read-only, \<^verbatim>\<open>dump\<close>, \<^verbatim>\<open>dumpMetadata\<close> and
  \<^verbatim>\<open>loadMetadata\<close> raise the read-only exception and leave the file system unchanged.
  \<^verbatim>\<open>load\<close> does not look at the mode: it behaves the same on a writer and on a reader, and
  on a database file it returns all the tables of the file under their stored names (a suffixed
  name is a name like any other).
\<close>

theorem read_only_guard:
  "(readOnly self \<longrightarrow>
       dump self data w = (Raise (Exception (PyStr ''MetricsDataIO initialized in read-only mode!'')), w)
     \<and> dumpMetadata self w = (Raise (Exception (PyStr ''MetricsDataIO initialized in read-only mode!'')), w)
     \<and> loadMetadata self w = (Raise (Exception (PyStr ''MetricsDataIO initialized in read-only mode!'')), w))
   \<and> load (self\<lparr>readOnly := b\<rparr>) w = load self w
   \<and> (files w (dbFile self) = Some (Sqlite db) \<longrightarrow> load self w = (Return db, w))"
  by (simp add: dump_def dumpMetadata_def loadMetadata_def checkReadOnly_def load_def path_exists_def)

theorem read_only_guard_witness:
  "dump \<lparr>dbFile = ''o'', forceOverwrite = False, timeout = 900, readOnly = True, metadata = Map.empty\<rparr>
      [ [(''gpu'', [(''T'', [IntV 1])])] ]
      \<lparr>files = [''o'' \<mapsto> Sqlite [''gpu_epoch:0'' \<mapsto> [(''T'', [IntV 1])], ''gpu_epoch:1'' \<mapsto> [(''T'', [IntV 2])] ] ],
        heldElsewhere = {}\<rparr>
    = (Raise (Exception (PyStr ''MetricsDataIO initialized in read-only mode!'')),
       \<lparr>files = [''o'' \<mapsto> Sqlite [''gpu_epoch:0'' \<mapsto> [(''T'', [IntV 1])], ''gpu_epoch:1'' \<mapsto> [(''T'', [IntV 2])] ] ],
        heldElsewhere = {}\<rparr>)
   \<and> load \<lparr>dbFile = ''o'', forceOverwrite = False, timeout = 900, readOnly = True, metadata = Map.empty\<rparr>
      \<lparr>files = [''o'' \<mapsto> Sqlite [''gpu_epoch:0'' \<mapsto> [(''T'', [IntV 1])], ''gpu_epoch:1'' \<mapsto> [(''T'', [IntV 2])] ] ],
        heldElsewhere = {}\<rparr>
    = (Return [''gpu_epoch:0'' \<mapsto> [(''T'', [IntV 1])], ''gpu_epoch:1'' \<mapsto> [(''T'', [IntV 2])] ],
       \<lparr>files = [''o'' \<mapsto> Sqlite [''gpu_epoch:0'' \<mapsto> [(''T'', [IntV 1])], ''gpu_epoch:1'' \<mapsto> [(''T'', [IntV 2])] ] ],
        heldElsewhere = {}\<rparr>)"
  using read_only_guard [of
      "\<lparr>dbFile = ''o'', forceOverwrite = False, timeout = 900, readOnly = True, metadata = Map.empty\<rparr>"
      "[ [(''gpu'', [(''T'', [IntV 1])])] ]"
      "\<lparr>files = [''o'' \<mapsto> Sqlite [''gpu_epoch:0'' \<mapsto> [(''T'', [IntV 1])], ''gpu_epoch:1'' \<mapsto> [(''T'', [IntV 2])] ] ],
        heldElsewhere = {}\<rparr>"
      True
      "[''gpu_epoch:0'' \<mapsto> [(''T'', [IntV 1])], ''gpu_epoch:1'' \<mapsto> [(''T'', [IntV 2])] ]"]
  by simp

text \<open>
  C8. On a writer, \<^verbatim>\<open>loadMetadata\<close> with no persisted record yet (the in-memory record is
  the empty one the constructor installed, and the lock is free) persists the empty record and
  leaves the in-memory record equal to it; with a persisted record, it reads exactly that
  record into memory and changes no file.
\<close>

theorem loadMetadata_first_touch:
  assumes "\<not> readOnly self"
  shows "(files w (metadataFile self) = None \<longrightarrow> lockFile self \<notin> heldElsewhere w \<longrightarrow> metadata self = Map.empty \<longrightarrow>
            loadMetadata self w
              = (Return self, w\<lparr>files := (files w)(metadataFile self \<mapsto> Pickle Map.empty)\<rparr>))
       \<and> (files w (metadataFile self) = Some (Pickle m) \<longrightarrow>
            loadMetadata self w = (Return (self\<lparr>metadata := m\<rparr>), w))"
  using assms by (simp add: io_defs)

theorem loadMetadata_first_touch_witness:
  "loadMetadata \<lparr>dbFile = ''o'', forceOverwrite = False, timeout = 900, readOnly = False, metadata = Map.empty\<rparr>
      \<lparr>files = Map.empty, heldElsewhere = {}\<rparr>
    = (Return \<lparr>dbFile = ''o'', forceOverwrite = False, timeout = 900, readOnly = False, metadata = Map.empty\<rparr>,
       \<lparr>files = [''o.metadata'' \<mapsto> Pickle Map.empty], heldElsewhere = {}\<rparr>)
   \<and> loadMetadata \<lparr>dbFile = ''o'', forceOverwrite = False, timeout = 900, readOnly = False, metadata = Map.empty\<rparr>
      \<lparr>files = [''o.metadata'' \<mapsto> Pickle [''dbExists'' \<mapsto> PyBool True] ], heldElsewhere = {}\<rparr>
    = (Return \<lparr>dbFile = ''o'', forceOverwrite = False, timeout = 900, readOnly = False,
               metadata = [''dbExists'' \<mapsto> PyBool True]\<rparr>,
       \<lparr>files = [''o.metadata'' \<mapsto> Pickle [''dbExists'' \<mapsto> PyBool True] ], heldElsewhere = {}\<rparr>)"
proof -
  let ?c = "\<lparr>dbFile = ''o'', forceOverwrite = False, timeout = 900, readOnly = False, metadata = Map.empty\<rparr>"
  have h: "\<not> readOnly ?c" by simp
  from loadMetadata_first_touch [OF h, of "\<lparr>files = Map.empty, heldElsewhere = {}\<rparr>"]
    loadMetadata_first_touch [OF h, of "\<lparr>files = [''o.metadata'' \<mapsto> Pickle [''dbExists'' \<mapsto> PyBool True] ], heldElsewhere = {}\<rparr>"
      "[''dbExists'' \<mapsto> PyBool True]"]
  show ?thesis by (simp add: metadataFile_def lockFile_def)
qed

section \<open>Validation of the output path by concurrent writers\<close>

lemma conflict_message_nonempty: "conflict_message f \<noteq> []"
  by (simp add: conflict_message_def)

lemma init_committed_error:
  assumes "files w (f @ ''.metadata'') = Some (Pickle m)" "m ''dbError'' = Some v" "truthy v"
    and "f @ ''.lock'' \<notin> heldElsewhere w"
  shows "init f fo False tmo w = (Raise (Exception v), w)"
  using assms by (simp add: init_def checkOutfileExists_def io_defs py_get_def)

lemma init_conflict:
  assumes "f @ ''.lock'' \<notin> heldElsewhere w" "files w f \<noteq> None"
    and "files w (f @ ''.metadata'') = None \<and> m = Map.empty \<or> files w (f @ ''.metadata'') = Some (Pickle m)"
    and "\<not> truthy (py_get m ''dbError'')" "\<not> truthy (py_get m ''dbExists'')"
  shows "init f False False tmo w
    = (Raise (Exception (PyStr (conflict_message f))),
       w\<lparr>files := (files w)(f @ ''.metadata'' \<mapsto> Pickle (m(''dbError'' \<mapsto> PyStr (conflict_message f))))\<rparr>)"
  using assms by (auto simp: init_def checkOutfileExists_def io_defs py_get_def Let_def)

text \<open>
  C1. A writer is constructed without overwrite for a path whose file exists, the lock is free,
  and the loaded metadata (the empty record when there is no metadata file yet) has neither a
  true \<^verbatim>\<open>dbExists\<close> nor a \<^verbatim>\<open>dbError\<close>. Then the constructor stores the conflict message
  under \<^verbatim>\<open>dbError\<close>, persists the metadata and raises an exception with that message. Every
  writer constructed afterwards for the same path, whatever its overwrite flag and timeout,
  raises an exception with exactly the stored message and changes nothing; the same holds on any
  file system whose metadata record holds that \<^verbatim>\<open>dbError\<close>.
\<close>

theorem path_conflict_committed:
  assumes "f @ ''.lock'' \<notin> heldElsewhere w" "files w f \<noteq> None"
    and "files w (f @ ''.metadata'') = None \<and> m = Map.empty \<or> files w (f @ ''.metadata'') = Some (Pickle m)"
    and "\<not> truthy (py_get m ''dbError'')" "\<not> truthy (py_get m ''dbExists'')"
  shows "\<exists>w'. init f False False tmo w = (Raise (Exception (PyStr (conflict_message f))), w')
     \<and> w' = w\<lparr>files := (files w)(f @ ''.metadata'' \<mapsto> Pickle (m(''dbError'' \<mapsto> PyStr (conflict_message f))))\<rparr>
     \<and> (\<forall>fo' tmo'. init f fo' False tmo' w' = (Raise (Exception (PyStr (conflict_message f))), w'))
     \<and> (\<forall>w2 m2 fo' tmo'. files w2 (f @ ''.metadata'') = Some (Pickle m2)
            \<and> m2 ''dbError'' = Some (PyStr (conflict_message f)) \<and> f @ ''.lock'' \<notin> heldElsewhere w2
          \<longrightarrow> init f fo' False tmo' w2 = (Raise (Exception (PyStr (conflict_message f))), w2))"
proof -
  let ?msg = "conflict_message f"
  let ?w' = "w\<lparr>files := (files w)(f @ ''.metadata'' \<mapsto> Pickle (m(''dbError'' \<mapsto> PyStr ?msg)))\<rparr>"
  have t: "truthy (PyStr ?msg)" by (simp add: conflict_message_nonempty)
  have later: "init f fo' False tmo' w2 = (Raise (Exception (PyStr ?msg)), w2)"
    if "files w2 (f @ ''.metadata'') = Some (Pickle m2)" "m2 ''dbError'' = Some (PyStr ?msg)"
      "f @ ''.lock'' \<notin> heldElsewhere w2" for w2 m2 fo' tmo'
    using init_committed_error [OF that(1,2) t that(3)] .
  have "init f fo' False tmo' ?w' = (Raise (Exception (PyStr ?msg)), ?w')" for fo' tmo'
    using assms(1) by (intro later [of _ "m(''dbError'' \<mapsto> PyStr ?msg)"]) simp_all
  with init_conflict [OF assms] later show ?thesis by blast
qed

theorem path_conflict_committed_witness:
  "init ''o'' False False 900 \<lparr>files = [''o'' \<mapsto> Other], heldElsewhere = {}\<rparr>
     = (Raise (Exception (PyStr ''Output file o already exists! Please specify a different output file or set -f flag.'')),
        \<lparr>files = [''o'' \<mapsto> Other, ''o.metadata'' \<mapsto>
            Pickle [''dbError'' \<mapsto> PyStr ''Output file o already exists! Please specify a different output file or set -f flag.''] ],
         heldElsewhere = {}\<rparr>)
   \<and> init ''o'' True False 5
       \<lparr>files = [''o'' \<mapsto> Other, ''o.metadata'' \<mapsto>
            Pickle [''dbError'' \<mapsto> PyStr ''Output file o already exists! Please specify a different output file or set -f flag.''] ],
         heldElsewhere = {}\<rparr>
     = (Raise (Exception (PyStr ''Output file o already exists! Please specify a different output file or set -f flag.'')),
        \<lparr>files = [''o'' \<mapsto> Other, ''o.metadata'' \<mapsto>
            Pickle [''dbError'' \<mapsto> PyStr ''Output file o already exists! Please specify a different output file or set -f flag.''] ],
         heldElsewhere = {}\<rparr>)"
proof -
  let ?w = "\<lparr>files = [''o'' \<mapsto> Other], heldElsewhere = {}\<rparr>"
  have h1: "''o'' @ ''.lock'' \<notin> heldElsewhere ?w" by simp
  have h2: "files ?w ''o'' \<noteq> None" by simp
  have h3: "files ?w (''o'' @ ''.metadata'') = None \<and> (Map.empty :: metadata) = Map.empty
      \<or> files ?w (''o'' @ ''.metadata'') = Some (Pickle Map.empty)" by simp
  have h4: "\<not> truthy (py_get Map.empty ''dbError'')" by (simp add: py_get_def)
  have h5: "\<not> truthy (py_get Map.empty ''dbExists'')" by (simp add: py_get_def)
  from path_conflict_committed [OF h1 h2 h3 h4 h5, of 900]
  have "init ''o'' False False 900 ?w = (Raise (Exception (PyStr (conflict_message ''o''))),
         ?w\<lparr>files := (files ?w)(''o'' @ ''.metadata'' \<mapsto> Pickle [''dbError'' \<mapsto> PyStr (conflict_message ''o'')])\<rparr>)"
    and "init ''o'' True False 5
          (?w\<lparr>files := (files ?w)(''o'' @ ''.metadata'' \<mapsto> Pickle [''dbError'' \<mapsto> PyStr (conflict_message ''o'')])\<rparr>)
        = (Raise (Exception (PyStr (conflict_message ''o''))),
          ?w\<lparr>files := (files ?w)(''o'' @ ''.metadata'' \<mapsto> Pickle [''dbError'' \<mapsto> PyStr (conflict_message ''o'')])\<rparr>)"
    by blast+
  then show ?thesis by (simp add: conflict_message_def)
qed

text \<open>
  C2. The validation of a fresh output path: with no output file and no metadata, the
  constructor returns and the persisted record is the empty one, \<^verbatim>\<open>dbExists\<close> is not set.
  After this first writer has dumped its tables, a second writer of the same path finds the file,
  finds no \<^verbatim>\<open>dbExists\<close>, and fails with the conflict message (or, with overwrite, deletes the
  file the first writer created). The branch that deletes an existing file does set and persist
  \<^verbatim>\<open>dbExists\<close>.
\<close>

theorem fresh_path_leaves_dbExists_unset:
  "init ''o'' False False 900 \<lparr>files = Map.empty, heldElsewhere = {}\<rparr>
     = (Return \<lparr>dbFile = ''o'', forceOverwrite = False, timeout = 900, readOnly = False, metadata = Map.empty\<rparr>,
        \<lparr>files = [''o.metadata'' \<mapsto> Pickle Map.empty], heldElsewhere = {}\<rparr>)
   \<and> dump \<lparr>dbFile = ''o'', forceOverwrite = False, timeout = 900, readOnly = False, metadata = Map.empty\<rparr>
        [ [(''gpu'', [(''T'', [IntV 1])])] ]
        \<lparr>files = [''o.metadata'' \<mapsto> Pickle Map.empty], heldElsewhere = {}\<rparr>
     = (Return (), \<lparr>files = [''o.metadata'' \<mapsto> Pickle Map.empty,
                             ''o'' \<mapsto> Sqlite [''gpu'' \<mapsto> [(''T'', [IntV 1])] ] ], heldElsewhere = {}\<rparr>)
   \<and> init ''o'' False False 900
        \<lparr>files = [''o.metadata'' \<mapsto> Pickle Map.empty,
                  ''o'' \<mapsto> Sqlite [''gpu'' \<mapsto> [(''T'', [IntV 1])] ] ], heldElsewhere = {}\<rparr>
     = (Raise (Exception (PyStr ''Output file o already exists! Please specify a different output file or set -f flag.'')),
        \<lparr>files = [''o.metadata'' \<mapsto>
                    Pickle [''dbError'' \<mapsto> PyStr ''Output file o already exists! Please specify a different output file or set -f flag.''],
                  ''o'' \<mapsto> Sqlite [''gpu'' \<mapsto> [(''T'', [IntV 1])] ] ], heldElsewhere = {}\<rparr>)
   \<and> init ''o'' True False 900 \<lparr>files = [''o'' \<mapsto> Other], heldElsewhere = {}\<rparr>
     = (Return \<lparr>dbFile = ''o'', forceOverwrite = True, timeout = 900, readOnly = False,
                metadata = [''dbExists'' \<mapsto> PyBool True]\<rparr>,
        \<lparr>files = [''o.metadata'' \<mapsto> Pickle [''dbExists'' \<mapsto> PyBool True] ], heldElsewhere = {}\<rparr>)
   \<and> init ''o'' True False 900
        \<lparr>files = [''o.metadata'' \<mapsto> Pickle Map.empty,
                  ''o'' \<mapsto> Sqlite [''gpu'' \<mapsto> [(''T'', [IntV 1])] ] ], heldElsewhere = {}\<rparr>
     = (Return \<lparr>dbFile = ''o'', forceOverwrite = True, timeout = 900, readOnly = False,
                metadata = [''dbExists'' \<mapsto> PyBool True]\<rparr>,
        \<lparr>files = [''o.metadata'' \<mapsto> Pickle [''dbExists'' \<mapsto> PyBool True] ], heldElsewhere = {}\<rparr>)"
  by (simp add: init_def checkOutfileExists_def io_defs py_get_def conflict_message_def os_remove_def
      dump_def dump_body_def dumpEpoch_def sqlite_connect_def to_sql_def normalize_def fun_upd_twist Let_def)

section \<open>The lock and the timeout argument\<close>

text \<open>
  C3, as claimed: every acquisition of the lock is bounded by the coordinator's timeout, and with
  timeout 0 on a lock that is held the acquisition fails with the lock library's timeout error.
  It does not: the timeout never reaches the lock. A writer constructed with timeout 0 for a path
  whose lock another process holds waits; it does not raise.
\<close>

theorem lock_timeout_zero_waits:
  "init ''o'' False False 0 \<lparr>files = Map.empty, heldElsewhere = {''o.lock''}\<rparr>
     = (Hang, \<lparr>files = Map.empty, heldElsewhere = {''o.lock''}\<rparr>)
   \<and> fst (init ''o'' False False 0 \<lparr>files = Map.empty, heldElsewhere = {''o.lock''}\<rparr>)
       \<noteq> Raise (Timeout ''o.lock'')"
  by (simp add: init_def checkOutfileExists_def io_defs)

lemma init_timeout_irrelevant:
  "init f fo False tmo' w =
     (case init f fo False tmo w of
        (Return c, w') \<Rightarrow> (Return (c\<lparr>timeout := tmo'\<rparr>), w')
      | (Raise e, w') \<Rightarrow> (Raise e, w')
      | (Hang, w') \<Rightarrow> (Hang, w'))"
  by (simp add: init_def checkOutfileExists_def io_defs py_get_def Let_def os_remove_def
      split: option.splits fileData.splits)

text \<open>
  C3, amended. The timeout argument of a writer is stored and handed to the database connection
  only; the lock is created and acquired without a timeout. So the constructor behaves the same
  for every timeout (only the stored attribute differs), it waits when the lock is held by
  another process and does not wait when the lock is free, it never fails with the lock
  library's timeout error, and \<^verbatim>\<open>dumpMetadata\<close> on a held lock waits as well.
\<close>

theorem lock_wait_ignores_timeout:
  "init f fo False tmo' w =
     (case init f fo False tmo w of
        (Return c, w') \<Rightarrow> (Return (c\<lparr>timeout := tmo'\<rparr>), w')
      | (Raise e, w') \<Rightarrow> (Raise e, w')
      | (Hang, w') \<Rightarrow> (Hang, w'))
   \<and> (f @ ''.lock'' \<in> heldElsewhere w \<longrightarrow> init f fo False tmo w = (Hang, w))
   \<and> (f @ ''.lock'' \<notin> heldElsewhere w \<longrightarrow> fst (init f fo False tmo w) \<noteq> Hang)
   \<and> fst (init f fo False tmo w) \<noteq> Raise (Timeout x)
   \<and> (\<not> readOnly self \<longrightarrow> lockFile self \<in> heldElsewhere w' \<longrightarrow> dumpMetadata self w' = (Hang, w'))"
proof (intro conjI impI)
  show "init f fo False tmo' w =
     (case init f fo False tmo w of
        (Return c, w') \<Rightarrow> (Return (c\<lparr>timeout := tmo'\<rparr>), w')
      | (Raise e, w') \<Rightarrow> (Raise e, w')
      | (Hang, w') \<Rightarrow> (Hang, w'))"
    by (rule init_timeout_irrelevant)
  show "init f fo False tmo w = (Hang, w)" if "f @ ''.lock'' \<in> heldElsewhere w"
    using that by (simp add: init_def checkOutfileExists_def io_defs)
  show "fst (init f fo False tmo w) \<noteq> Hang" if "f @ ''.lock'' \<notin> heldElsewhere w"
    using that by (simp add: init_def checkOutfileExists_def io_defs py_get_def Let_def os_remove_def
        split: option.splits fileData.splits)
  show "fst (init f fo False tmo w) \<noteq> Raise (Timeout x)"
    by (simp add: init_def checkOutfileExists_def io_defs py_get_def Let_def os_remove_def
        split: option.splits fileData.splits)
  show "dumpMetadata self w' = (Hang, w')" if "\<not> readOnly self" "lockFile self \<in> heldElsewhere w'"
    using that by (simp add: io_defs)
qed

theorem lock_wait_ignores_timeout_witness:
  "init ''o'' False False 30 \<lparr>files = Map.empty, heldElsewhere = {''o.lock''}\<rparr>
     = (Hang, \<lparr>files = Map.empty, heldElsewhere = {''o.lock''}\<rparr>)
   \<and> fst (init ''o'' False False 30 \<lparr>files = Map.empty, heldElsewhere = {}\<rparr>) \<noteq> Hang"
  using lock_wait_ignores_timeout [of "''o''" False 30 "\<lparr>files = Map.empty, heldElsewhere = {''o.lock''}\<rparr>" 30]
    lock_wait_ignores_timeout [of "''o''" False 30 "\<lparr>files = Map.empty, heldElsewhere = {}\<rparr>" 30]
  by simp

section \<open>The fallback target of a rank\<close>

text \<open>Some values of the parsing functions.\<close>

lemma py_int_6: "py_int ''6'' = Inr 6"
  by (simp add: py_int_def py_strip_def is_space_def is_digit_def digits_val_def digit_val_def)

lemma py_int_neg: "py_int '' -13 '' = Inr (- 13)"
  by (simp add: py_int_def py_strip_def is_space_def is_digit_def digits_val_def digit_val_def)

lemma py_int_bad: "py_int ''1x'' = Inl (ValueError ''1x'')"
  by (simp add: py_int_def py_strip_def is_space_def is_digit_def digits_val_def digit_val_def)

lemma py_int_us: "py_int ''1_0'' = Inr 10"
  by (simp add: py_int_def py_strip_def is_space_def is_digit_def digits_val_def digit_val_def)

lemma split_ex: "py_split CHR '','' ''0,1,,2'' = [''0'', ''1'', '''', ''2'']"
  by simp

lemma step_gpus: "profile_targets [''SLURM_JOB_ID'' \<mapsto> ''77'', ''SLURM_STEP_GPUS'' \<mapsto> ''2,3''] = Inr (''77'', [2, 3])"
  by (simp add: profile_targets_def targets_from_step_gpus_def targets_from_procid_def environ_get_def
    py_int_def py_strip_def is_space_def is_digit_def digits_val_def digit_val_def)

text \<open>
  C9, as claimed: whenever the variable listing the assigned GPUs is absent and the rank index
  variable is present, the process gets the single target ``rank index modulo 4''. It does not
  when the job identifier variable is absent too: the handler reads it again and the
  \<^verbatim>\<open>KeyError\<close> escapes, so no target is assigned.
\<close>

theorem fallback_without_job_id:
  "profile_targets [''SLURM_PROCID'' \<mapsto> ''5''] = Inl (KeyError ''SLURM_JOB_ID'')"
  by (simp add: profile_targets_def targets_from_step_gpus_def targets_from_procid_def environ_get_def)

text \<open>
  C9, amended. When the variable listing the assigned GPUs is absent, and the job identifier and
  the rank index variables are present, the rank index being an integer literal, the targets of
  the process are the one-element list holding the rank index modulo 4, a number from 0 to 3.
\<close>

theorem fallback_target:
  assumes "env ''SLURM_STEP_GPUS'' = None" "env ''SLURM_JOB_ID'' = Some jobId"
    and "env ''SLURM_PROCID'' = Some p" "py_int p = Inr procId"
  shows "profile_targets env = Inr (jobId, [procId mod 4])
     \<and> 0 \<le> procId mod 4 \<and> procId mod 4 < 4"
  using assms
  by (simp add: profile_targets_def targets_from_step_gpus_def targets_from_procid_def environ_get_def)

theorem fallback_target_witness:
  "profile_targets [''SLURM_JOB_ID'' \<mapsto> ''77'', ''SLURM_PROCID'' \<mapsto> ''6''] = Inr (''77'', [2])"
proof -
  let ?env = "[''SLURM_JOB_ID'' \<mapsto> ''77'', ''SLURM_PROCID'' \<mapsto> ''6'']"
  have h1: "?env ''SLURM_STEP_GPUS'' = None" by simp
  have h2: "?env ''SLURM_JOB_ID'' = Some ''77''" by simp
  have h3: "?env ''SLURM_PROCID'' = Some ''6''" by simp
  have h4: "py_int ''6'' = Inr 6"
    by (simp add: py_int_def py_strip_def is_space_def is_digit_def digits_val_def digit_val_def)
  from fallback_target [of ?env "''77''" "''6''" 6] h1 h2 h3 h4 show ?thesis by simp
qed

end
